theory Spec2Isabelle
  imports Main "HOL-Library.Sublist"
begin

section \<open>Text extraction: the regular expressions of the analyzers\<close>

text \<open>
  The three scripts extract everything with Python's \<^verbatim>\<open>re\<close> module. The patterns they
  use are built from literals, the classes \<^verbatim>\<open>\w\<close>, \<^verbatim>\<open>\s\<close> and \<^verbatim>\<open>.\<close>
  under a greedy or lazy repetition, an optional single character, an alternation of
  literals, capture groups and \<^verbatim>\<open>\b\<close>. A pattern is a list of such nodes, and matching
  is the backtracking search of \<^verbatim>\<open>re\<close>: \<open>m_seq p st\<close> lists every way of matching \<open>p\<close>
  at \<open>st\<close> in the order in which the backtracking matcher tries them, so its head is the
  match that \<^verbatim>\<open>re\<close> reports.

  The only unescaped \<^verbatim>\<open>.\<close> of the scripts is in the table pattern, compiled with
  \<^verbatim>\<open>re.DOTALL\<close>, so \<open>AnyChar\<close> accepts every character.
\<close>

text \<open>
  The patterns are \<^verbatim>\<open>str\<close> patterns, so \<^verbatim>\<open>\w\<close>, \<^verbatim>\<open>\s\<close> and \<^verbatim>\<open>\b\<close> follow the Unicode
  database of the interpreter: \<^verbatim>\<open>\w\<close> is an alphanumeric character
  (\<^verbatim>\<open>Py_UNICODE_ISALNUM\<close>) or the underscore, \<^verbatim>\<open>\s\<close> a whitespace character
  (\<^verbatim>\<open>Py_UNICODE_ISSPACE\<close>). A character of a text is therefore its code point together
  with its class in that database: alphanumeric, whitespace or neither. For the ASCII
  characters, the only ones that the scripts write down, the class is \<open>ascii_class\<close>,
  and \<open>ustr\<close> turns a literal of the scripts into a text.
\<close>

datatype uclass = Alnum | White | Other

datatype uchar = UChar int uclass

type_synonym str = "uchar list"

definition ascii_class :: "int \<Rightarrow> uclass" where
  "ascii_class n =
     (if (48 \<le> n \<and> n \<le> 57) \<or> (65 \<le> n \<and> n \<le> 90) \<or> (97 \<le> n \<and> n \<le> 122) then Alnum
      else if (9 \<le> n \<and> n \<le> 13) \<or> (28 \<le> n \<and> n \<le> 32) then White
      else Other)"

definition ch :: "char \<Rightarrow> uchar" where
  "ch c = UChar (of_char c) (ascii_class (of_char c))"

definition ustr :: "string \<Rightarrow> str" where
  "ustr s = map ch s"

fun is_word :: "uchar \<Rightarrow> bool" where
  "is_word (UChar n k) = (k = Alnum \<or> (n = 95 \<and> k = Other))"

fun is_space :: "uchar \<Rightarrow> bool" where
  "is_space (UChar n k) = (k = White)"

datatype cls = Word | Space | AnyChar | OneOf str

fun cls_ok :: "cls \<Rightarrow> uchar \<Rightarrow> bool" where
  "cls_ok Word c = is_word c"
| "cls_ok Space c = is_space c"
| "cls_ok AnyChar c = True"
| "cls_ok (OneOf cs) c = (c \<in> set cs)"

text \<open>
  \<open>Lit w\<close> is the literal \<open>w\<close>; \<open>One c\<close> one character of a class; \<open>Rep c n g\<close> at least
  \<open>n\<close> characters of the class \<open>c\<close>, greedy (\<^verbatim>\<open>\w+\<close>, \<^verbatim>\<open>\s*\<close>) when \<open>g\<close> holds and lazy
  (\<^verbatim>\<open>.*?\<close>) otherwise; \<open>Opt c\<close> the greedy optional character \<^verbatim>\<open>c?\<close>; \<open>Alt\<close> an
  alternation, tried from left to right; \<open>Grp\<close> a capture group; \<open>WordB\<close> is \<^verbatim>\<open>\b\<close>.
\<close>

datatype node = Lit str | One cls | Rep cls nat bool | Opt uchar | Alt "node list list"
  | Grp "node list" | WordB

text \<open>
  A matcher state: the character before the current position (for \<^verbatim>\<open>\b\<close>), the text
  from the current position on, and the groups captured so far, in the order in which
  they were closed (no pattern of the scripts nests groups, so that is their number).
\<close>

type_synonym mstate = "uchar option \<times> str \<times> str list"

definition advance :: "nat \<Rightarrow> mstate \<Rightarrow> mstate" where
  "advance k st = (case st of (prev, rest, gs) \<Rightarrow>
     ((if k = 0 then prev else Some (last (take k rest))), drop k rest, gs))"

definition m_lit :: "str \<Rightarrow> mstate \<Rightarrow> mstate list" where
  "m_lit w st = (case st of (prev, rest, gs) \<Rightarrow>
     if take (length w) rest = w then [advance (length w) st] else [])"

definition at_boundary :: "mstate \<Rightarrow> bool" where
  "at_boundary st = (case st of (prev, rest, gs) \<Rightarrow>
     (case prev of None \<Rightarrow> False | Some c \<Rightarrow> is_word c) \<noteq>
     (case rest of [] \<Rightarrow> False | c # _ \<Rightarrow> is_word c))"

fun m_node :: "node \<Rightarrow> mstate \<Rightarrow> mstate list"
and m_seq :: "node list \<Rightarrow> mstate \<Rightarrow> mstate list" where
  "m_node (Lit w) st = m_lit w st"
| "m_node (One c) st = (case st of (prev, rest, gs) \<Rightarrow>
     (case rest of [] \<Rightarrow> [] | x # _ \<Rightarrow> if cls_ok c x then [advance 1 st] else []))"
| "m_node (Rep c mn greedy) st = (case st of (prev, rest, gs) \<Rightarrow>
     (let k = length (takeWhile (cls_ok c) rest);
          ns = (if greedy then rev [mn..<Suc k] else [mn..<Suc k])
      in map (\<lambda>n. advance n st) ns))"
| "m_node (Opt c) st = m_lit [c] st @ [st]"
| "m_node (Alt alts) st = concat (map (\<lambda>alt. m_seq alt st) alts)"
| "m_node (Grp ns) st = (case st of (prev, rest, gs) \<Rightarrow>
     map (\<lambda>(prev', rest', gs'). (prev', rest', gs' @ [take (length rest - length rest') rest]))
         (m_seq ns st))"
| "m_node WordB st = (if at_boundary st then [st] else [])"
| "m_seq [] st = [st]"
| "m_seq (n # ns) st = concat (map (m_seq ns) (m_node n st))"

definition match_at :: "node list \<Rightarrow> mstate \<Rightarrow> mstate option" where
  "match_at p st = (case m_seq p st of [] \<Rightarrow> None | r # _ \<Rightarrow> Some r)"

text \<open>\<^verbatim>\<open>re.search\<close>: the match at the leftmost position that has one; its groups.\<close>

fun search_from :: "node list \<Rightarrow> uchar option \<Rightarrow> str \<Rightarrow> str list option" where
  "search_from p prev [] = map_option (\<lambda>(_, _, gs). gs) (match_at p (prev, [], []))"
| "search_from p prev (c # s) =
     (case match_at p (prev, c # s, []) of
        Some (_, _, gs) \<Rightarrow> Some gs
      | None \<Rightarrow> search_from p (Some c) s)"

definition re_search :: "node list \<Rightarrow> str \<Rightarrow> str list option" where
  "re_search p s = search_from p None s"

text \<open>
  \<^verbatim>\<open>re.finditer\<close>: the non-overlapping matches from left to right, each search starting
  where the previous match ended. Every pattern of the scripts starts with a non-empty
  literal, so no match is empty; the function steps one character on after an empty match
  all the same, which makes it total.
\<close>

function finditer_from :: "node list \<Rightarrow> uchar option \<Rightarrow> str \<Rightarrow> str list list" where
  "finditer_from p prev s =
     (case match_at p (prev, s, []) of
        Some (prev', s', gs) \<Rightarrow>
          gs # (if length s' < length s then finditer_from p prev' s'
                else (case s of [] \<Rightarrow> [] | c # t \<Rightarrow> finditer_from p (Some c) t))
      | None \<Rightarrow> (case s of [] \<Rightarrow> [] | c # t \<Rightarrow> finditer_from p (Some c) t))"
  by pat_completeness auto
termination
  by (relation "measure (\<lambda>(p, prev, s). length s)") auto

definition finditer :: "node list \<Rightarrow> str \<Rightarrow> str list list" where
  "finditer p s = finditer_from p None s"

text \<open>\<^verbatim>\<open>match.group(k)\<close>, for \<open>k\<close> from 1.\<close>

definition group :: "str list \<Rightarrow> nat \<Rightarrow> str" where
  "group gs k = gs ! (k - 1)"

definition dq :: str where
  "dq = ustr [CHR 0x22]"

definition sq :: str where
  "sq = ustr [CHR 0x27]"

definition nl :: str where
  "nl = ustr [CHR 0x0A]"

section \<open>Python values, dictionaries and errors\<close>

datatype error = KeyError | TypeError | OSError | SystemExit int

datatype pyval = Str str | Num int

text \<open>
  A \<^verbatim>\<open>dict\<close> keeps its keys in insertion order and an assignment to a key that is
  present replaces the value where it stands: an association list with \<open>dict_set\<close>.
\<close>

type_synonym ('k, 'v) dict = "('k \<times> 'v) list"

fun dict_set :: "('k, 'v) dict \<Rightarrow> 'k \<Rightarrow> 'v \<Rightarrow> ('k, 'v) dict" where
  "dict_set [] k v = [(k, v)]"
| "dict_set ((k', v') # d) k v = (if k' = k then (k, v) # d else (k', v') # dict_set d k v)"

definition dict_in :: "'k \<Rightarrow> ('k, 'v) dict \<Rightarrow> bool" where
  "dict_in k d = (map_of d k \<noteq> None)"

definition dict_get :: "('k, 'v) dict \<Rightarrow> 'k \<Rightarrow> error + 'v" where
  "dict_get d k = (case map_of d k of None \<Rightarrow> Inl KeyError | Some v \<Rightarrow> Inr v)"

type_synonym finding = "(string, pyval) dict"

function str_nat :: "nat \<Rightarrow> string" where
  "str_nat n = (if n < 10 then [char_of (48 + n)] else str_nat (n div 10) @ [char_of (48 + n mod 10)])"
  by pat_completeness auto
termination
  by (relation "measure id") auto

definition str_int :: "int \<Rightarrow> string" where
  "str_int i = (if i < 0 then ''-'' @ str_nat (nat (- i)) else str_nat (nat i))"

section \<open>analyze\_indexes.py\<close>

subsection \<open>parse\_schema\<close>

definition table_pattern :: "node list" where
  "table_pattern = [Lit (ustr ''create_table''), Rep Space 1 True, Lit dq, Grp [Rep Word 1 True],
     Lit dq, Rep AnyChar 0 False, Lit (ustr ''do''), Rep Space 0 True, Lit (ustr ''|t|''),
     Grp [Rep AnyChar 0 False], Lit (ustr ''end'')]"

definition col_pattern :: "node list" where
  "col_pattern = [Lit (ustr ''t.''), Grp [Rep Word 1 True], Rep Space 1 True, Lit dq,
     Grp [Rep Word 1 True], Lit dq]"

definition fk_pattern :: "node list" where
  "fk_pattern = [Lit (ustr ''t.''), Rep Word 1 True, Rep Space 1 True, Lit dq,
     Grp [Rep Word 1 True, Lit (ustr ''_id'')], Lit dq]"

definition index_pattern :: "node list" where
  "index_pattern = [Lit (ustr ''add_index''), Rep Space 1 True, Lit dq, Grp [Rep Word 1 True],
     Lit dq, Lit (ustr '',''), Rep Space 1 True, Opt (ch (CHR ''['')), Lit dq,
     Grp [Rep Word 1 True], Opt (ch (CHR 0x22)), Opt (ch (CHR '']''))]"

record table_info =
  columns :: "str list"
  foreign_keys :: "str list"
  indexes :: "str list"

type_synonym tables = "(str, table_info) dict"

text \<open>
  The body of the first loop of \<^verbatim>\<open>parse_schema\<close>, for one match of the table pattern:
  the entry made from the text of the block, and its assignment to the name.
\<close>

definition table_entry :: "str \<Rightarrow> table_info" where
  "table_entry table_def =
     (let columns = map (\<lambda>col_match. group col_match 2) (finditer col_pattern table_def);
          foreign_keys = map (\<lambda>fk_match. group fk_match 1) (finditer fk_pattern table_def)
      in \<lparr>columns = columns, foreign_keys = foreign_keys, indexes = []\<rparr>)"

definition add_table :: "tables \<Rightarrow> str list \<Rightarrow> tables" where
  "add_table tables m =
     (let table_name = group m 1; table_def = group m 2
      in dict_set tables table_name (table_entry table_def))"

definition build_tables :: "str \<Rightarrow> tables" where
  "build_tables content = foldl add_table [] (finditer table_pattern content)"

text \<open>
  The second loop. \<^verbatim>\<open>tables[table_name]\<close> raises \<^verbatim>\<open>KeyError\<close> on a missing key, so
  the lookup is a branch of the model; the list of each table is its own object, so
  appending to it changes that table only.
\<close>

fun add_indexes :: "tables \<Rightarrow> str list list \<Rightarrow> error + tables" where
  "add_indexes tables [] = Inr tables"
| "add_indexes tables (m # ms) =
     (let table_name = group m 1; column_name = group m 2
      in if dict_in table_name tables
         then (case dict_get tables table_name of
                 Inl e \<Rightarrow> Inl e
               | Inr info \<Rightarrow>
                   add_indexes
                     (dict_set tables table_name (info\<lparr>indexes := indexes info @ [column_name]\<rparr>))
                     ms)
         else add_indexes tables ms)"

definition parse_schema :: "str \<Rightarrow> error + tables" where
  "parse_schema content = add_indexes (build_tables content) (finditer index_pattern content)"

subsection \<open>The analyzers over the schema model\<close>

definition missing_index_issue :: "str \<Rightarrow> str \<Rightarrow> finding" where
  "missing_index_issue table_name fk =
     [(''table'', Str table_name),
      (''column'', Str fk),
      (''type'', Str (ustr ''missing_foreign_key_index'')),
      (''severity'', Str (ustr ''warning'')),
      (''message'', Str (ustr ''Foreign key '' @ fk @ ustr '' on '' @ table_name
                         @ ustr '' should have an index'')),
      (''suggestion'', Str (ustr ''add_index :'' @ table_name @ ustr '', :'' @ fk))]"

definition analyze_missing_indexes :: "tables \<Rightarrow> finding list" where
  "analyze_missing_indexes tables =
     concat (map (\<lambda>(table_name, table_info).
       concat (map (\<lambda>fk. if fk \<notin> set (indexes table_info)
                          then [missing_index_issue table_name fk] else [])
                   (foreign_keys table_info))) tables)"

definition boolean_issue :: "str \<Rightarrow> str \<Rightarrow> finding" where
  "boolean_issue table_name column =
     [(''table'', Str table_name),
      (''column'', Str column),
      (''type'', Str (ustr ''boolean_index_opportunity'')),
      (''severity'', Str (ustr ''info'')),
      (''message'', Str (ustr ''Boolean column '' @ column @ ustr '' on '' @ table_name
                         @ ustr '' might benefit from a partial index'')),
      (''suggestion'', Str (ustr ''add_index :'' @ table_name @ ustr '', :'' @ column
                            @ ustr '', where: '' @ dq @ column @ ustr '' = true'' @ dq))]"

definition analyze_boolean_columns :: "tables \<Rightarrow> finding list" where
  "analyze_boolean_columns tables =
     concat (map (\<lambda>(table_name, table_info).
       concat (map (\<lambda>column.
                 if prefix (ustr ''is_'') column \<or> prefix (ustr ''has_'') column
                    \<or> column \<in> set [ustr ''active'', ustr ''enabled'', ustr ''published'',
                                      ustr ''deleted'']
                 then (if column \<notin> set (indexes table_info)
                       then [boolean_issue table_name column] else [])
                 else [])
               (columns table_info))) tables)"

subsection \<open>analyze\_where\_clauses\<close>

text \<open>
  \<^verbatim>\<open>file_path.stem\<close> of \<^verbatim>\<open>pathlib\<close>, on a POSIX path: the last component of the path,
  without its last suffix when the last dot is neither its first nor its last character.
\<close>

definition path_name :: "str \<Rightarrow> str" where
  "path_name p = rev (takeWhile (\<lambda>c. c \<noteq> ch (CHR ''/'')) (rev p))"

definition rfind_dot :: "str \<Rightarrow> int" where
  "rfind_dot name = (if ch (CHR ''.'') \<in> set name
     then int (length name) - 1 - int (length (takeWhile (\<lambda>c. c \<noteq> ch (CHR ''.'')) (rev name)))
     else - 1)"

definition stem :: "str \<Rightarrow> str" where
  "stem p = (let name = path_name p; i = rfind_dot name
     in if 0 < i \<and> i < int (length name) - 1 then take (nat i) name else name)"

definition where_patterns :: "node list list" where
  "where_patterns =
     [[Lit (ustr ''.where(''), Rep Space 0 True, Grp [Rep Word 1 True], Lit (ustr '':''), Rep Space 0 True],
      [Lit (ustr ''.where(''), One (OneOf (dq @ sq)), Grp [Rep Word 1 True], Rep Space 0 True, Lit (ustr ''='')]]"

definition where_issue :: "str \<Rightarrow> str \<Rightarrow> finding" where
  "where_issue file_path column =
     [(''file'', Str file_path),
      (''column'', Str column),
      (''type'', Str (ustr ''where_clause_column'')),
      (''severity'', Str (ustr ''info'')),
      (''message'', Str (ustr ''Column '' @ dq @ column @ dq
                         @ ustr '' used in WHERE clause - consider indexing if queries are slow''))]"

text \<open>The state of the scan: \<^verbatim>\<open>issues\<close> and \<^verbatim>\<open>seen_patterns\<close>.\<close>

type_synonym scan_state = "finding list \<times> str set"

definition where_match :: "str \<Rightarrow> scan_state \<Rightarrow> str list \<Rightarrow> scan_state" where
  "where_match file_path st m = (case st of (issues, seen_patterns) \<Rightarrow>
     (let column = group m 1;
          pattern_key = stem file_path @ ustr '':'' @ column
      in if pattern_key \<notin> seen_patterns
         then (issues @ [where_issue file_path column], insert pattern_key seen_patterns)
         else (issues, seen_patterns)))"

text \<open>
  A scanned file is its path and what reading it gives: \<open>None\<close> when \<^verbatim>\<open>open\<close> or
  \<^verbatim>\<open>read\<close> raises, which the \<^verbatim>\<open>except\<close> clause swallows before anything was recorded.
\<close>

type_synonym source_file = "str \<times> str option"

definition where_file :: "scan_state \<Rightarrow> source_file \<Rightarrow> scan_state" where
  "where_file st f = (case f of (file_path, r) \<Rightarrow>
     (case r of
        None \<Rightarrow> st
      | Some content \<Rightarrow>
          foldl (\<lambda>st pattern_re. foldl (where_match file_path) st (finditer pattern_re content))
                st where_patterns))"

text \<open>\<open>glob\<close> stands for \<^verbatim>\<open>rails_root.glob\<close>: the files of a pattern, in the order it yields them.\<close>

definition analyze_where_clauses :: "(string \<Rightarrow> source_file list) \<Rightarrow> finding list" where
  "analyze_where_clauses glob =
     fst (foldl (\<lambda>st pattern. foldl where_file st (glob pattern)) ([], {})
            [''app/models/**/*.rb'', ''app/controllers/**/*.rb''])"

subsection \<open>main\<close>

datatype file_read = Missing | Unreadable | Content str

text \<open>Grouping the findings by a key: \<^verbatim>\<open>issue[key]\<close> raises when the key is missing.\<close>

fun group_by :: "string \<Rightarrow> (pyval, finding list) dict \<Rightarrow> finding list
                 \<Rightarrow> error + (pyval, finding list) dict" where
  "group_by key by [] = Inr by"
| "group_by key by (issue # issues) =
     (case dict_get issue key of
        Inl e \<Rightarrow> Inl e
      | Inr v \<Rightarrow>
          (let by' = (if \<not> dict_in v by then dict_set by v [] else by)
           in case dict_get by' v of
                Inl e \<Rightarrow> Inl e
              | Inr l \<Rightarrow> group_by key (dict_set by' v (l @ [issue])) issues))"

text \<open>The report reads these keys of each finding it prints.\<close>

fun read_keys :: "string list \<Rightarrow> finding list \<Rightarrow> error + unit" where
  "read_keys ks [] = Inr ()"
| "read_keys ks (issue # issues) =
     (if list_all (\<lambda>k. dict_in k issue) ks then read_keys ks issues else Inl KeyError)"

definition report_group :: "(pyval, finding list) dict \<Rightarrow> string \<Rightarrow> string list \<Rightarrow> error + unit" where
  "report_group by_type t ks =
     (if dict_in (Str (ustr t)) by_type
      then (case dict_get by_type (Str (ustr t)) of Inl e \<Rightarrow> Inl e | Inr issues \<Rightarrow> read_keys ks issues)
      else Inr ())"

record indexes_world =
  iw_rails_root :: "str option"
  iw_schema :: file_read
  iw_glob :: "string \<Rightarrow> source_file list"

definition main_indexes :: "indexes_world \<Rightarrow> error + int" where
  "main_indexes w =
     (case iw_rails_root w of
        None \<Rightarrow> Inl (SystemExit 1)
      | Some rails_root \<Rightarrow>
          (case iw_schema w of
             Missing \<Rightarrow> Inl (SystemExit 1)
           | Unreadable \<Rightarrow> Inl OSError
           | Content content \<Rightarrow>
               (case parse_schema content of
                  Inl e \<Rightarrow> Inl e
                | Inr tables \<Rightarrow>
                    (let missing_fk_indexes = analyze_missing_indexes tables;
                         where_clause_columns = analyze_where_clauses (iw_glob w);
                         boolean_opportunities = analyze_boolean_columns tables;
                         all_issues = missing_fk_indexes @ where_clause_columns
                                      @ boolean_opportunities
                     in case group_by ''type'' [] all_issues of
                          Inl e \<Rightarrow> Inl e
                        | Inr by_type \<Rightarrow>
                            (case report_group by_type ''missing_foreign_key_index''
                                    [''table'', ''column'', ''message'', ''suggestion''] of
                               Inl e \<Rightarrow> Inl e
                             | Inr _ \<Rightarrow>
                                 (case report_group by_type ''boolean_index_opportunity''
                                         [''table'', ''column'', ''message'', ''suggestion''] of
                                    Inl e \<Rightarrow> Inl e
                                  | Inr _ \<Rightarrow>
                                      (case report_group by_type ''where_clause_column''
                                              [''column''] of
                                         Inl e \<Rightarrow> Inl e
                                       | Inr _ \<Rightarrow> Inr 0)))))))"

text \<open>
  The status of the process under \<^verbatim>\<open>sys.exit(main())\<close>: what \<^verbatim>\<open>main\<close> returns, the
  argument of a \<^verbatim>\<open>sys.exit\<close> inside it, and 1 for an exception that nothing catches.
\<close>

fun exit_status :: "error + int \<Rightarrow> int" where
  "exit_status (Inr n) = n"
| "exit_status (Inl (SystemExit n)) = n"
| "exit_status (Inl e) = 1"

section \<open>analyze\_n\_plus\_one.py\<close>

text \<open>\<^verbatim>\<open>content.split('\n')\<close> and \<^verbatim>\<open>'\n'.join(lines)\<close>.\<close>

fun split_lines :: "str \<Rightarrow> str list" where
  "split_lines [] = [[]]"
| "split_lines (c # s) =
     (if c = ch (CHR 0x0A) then [] # split_lines s
      else (case split_lines s of [] \<Rightarrow> [[c]] | l # ls \<Rightarrow> (c # l) # ls))"

fun join_lines :: "str list \<Rightarrow> str" where
  "join_lines [] = []"
| "join_lines [l] = l"
| "join_lines (l # ls) = l @ nl @ join_lines ls"

text \<open>The slice \<^verbatim>\<open>xs[a:b]\<close> for \<open>0 \<le> a\<close> and \<open>0 \<le> b\<close>.\<close>

definition slice :: "'a list \<Rightarrow> nat \<Rightarrow> nat \<Rightarrow> 'a list" where
  "slice xs a b = take (b - a) (drop a xs)"

definition fetch_pattern :: "node list" where
  "fetch_pattern = [Lit (ustr ''.''), Grp [Alt [[Lit (ustr ''all'')], [Lit (ustr ''where'')], [Lit (ustr ''find_by'')],
     [Lit (ustr ''find'')]]], WordB]"

definition eager_pattern :: "node list" where
  "eager_pattern = [Lit (ustr ''.''), Grp [Alt [[Lit (ustr ''includes'')], [Lit (ustr ''preload'')],
     [Lit (ustr ''eager_load'')]]], WordB]"

definition var_pattern :: "node list" where
  "var_pattern = [Lit (ustr ''@''), Grp [Rep Word 1 True], Rep Space 0 True, Lit (ustr ''='')]"

text \<open>
  The pattern of the chain is an f-string: an at sign, the text of \<open>var_name\<close>, and
  \<^verbatim>\<open>\.\w+\.\w+\<close>. \<open>var_name\<close> was matched by \<^verbatim>\<open>\w+\<close>, so it holds no character
  that is special in a pattern and stands for itself.
\<close>

definition chain_pattern :: "str \<Rightarrow> node list" where
  "chain_pattern var_name = [Lit (ustr ''@''), Lit var_name, Lit (ustr ''.''), Rep Word 1 True, Lit (ustr ''.''),
     Rep Word 1 True]"

definition n_plus_one_issue :: "str \<Rightarrow> nat \<Rightarrow> finding" where
  "n_plus_one_issue file_path i =
     [(''file'', Str file_path),
      (''line'', Num (int i)),
      (''type'', Str (ustr ''potential_n_plus_one'')),
      (''severity'', Str (ustr ''warning'')),
      (''message'', Str (ustr ''Potential N+1 query: Query at line '' @ ustr (str_int (int i))
                         @ ustr '' may need eager loading''))]"

text \<open>
  The body of the loop over \<^verbatim>\<open>enumerate(lines, 1)\<close>, for the line numbered \<open>i\<close>. The
  inner loop appends one finding at the first later line with the chain and breaks.
\<close>

definition controller_line :: "str \<Rightarrow> str list \<Rightarrow> nat \<Rightarrow> finding list" where
  "controller_line file_path lines i =
     (let line = lines ! (i - 1)
      in if re_search fetch_pattern line \<noteq> None
         then (let context_start = nat (max 0 (int i - 3));
                   context_end = min (length lines) (i + 2);
                   context = join_lines (slice lines context_start context_end)
               in if re_search eager_pattern context = None
                  then (case re_search var_pattern line of
                          None \<Rightarrow> []
                        | Some var_match \<Rightarrow>
                            (let var_name = group var_match 1
                             in case find (\<lambda>j. re_search (chain_pattern var_name) (lines ! j)
                                                 \<noteq> None)
                                          [i..<min (length lines) (i + 20)] of
                                  None \<Rightarrow> []
                                | Some j \<Rightarrow> [n_plus_one_issue file_path i]))
                  else [])
         else [])"

definition analyze_controller_action :: "str \<Rightarrow> str \<Rightarrow> finding list" where
  "analyze_controller_action file_path content =
     (let lines = split_lines content
      in concat (map (controller_line file_path lines) [1..<Suc (length lines)]))"

definition association_pattern :: "node list" where
  "association_pattern = [Grp [Rep Word 1 True], Lit (ustr ''.''), Grp [Rep Word 1 True], Lit (ustr ''.''),
     Grp [Alt [[Lit (ustr ''each'')], [Lit (ustr ''map'')], [Lit (ustr ''size'')], [Lit (ustr ''count'')],
               [Rep Word 1 True]]]]"

definition view_issue :: "str \<Rightarrow> nat \<Rightarrow> finding" where
  "view_issue file_path i =
     [(''file'', Str file_path),
      (''line'', Num (int i)),
      (''type'', Str (ustr ''view_association_access'')),
      (''severity'', Str (ustr ''info'')),
      (''message'', Str (ustr ''Association access in view - verify eager loading in controller''))]"

definition analyze_view_file :: "str \<Rightarrow> str \<Rightarrow> finding list" where
  "analyze_view_file file_path content =
     (let lines = split_lines content
      in concat (map (\<lambda>i. if finditer association_pattern (lines ! (i - 1)) \<noteq> []
                           then [view_issue file_path i] else [])
                     [1..<Suc (length lines)]))"

text \<open>
  \<^verbatim>\<open>scan_directory\<close> over the files that \<^verbatim>\<open>directory.rglob(file_pattern)\<close> yields; a
  file that cannot be read is reported and skipped.
\<close>

definition scan_directory :: "source_file list \<Rightarrow> (str \<Rightarrow> str \<Rightarrow> finding list)
                               \<Rightarrow> finding list" where
  "scan_directory files analyzer_func =
     concat (map (\<lambda>(file_path, r). case r of None \<Rightarrow> [] | Some content \<Rightarrow>
                    analyzer_func file_path content) files)"

record n_plus_one_world =
  nw_rails_root :: "str option"
  nw_rglob :: "str \<Rightarrow> string \<Rightarrow> source_file list"

definition main_n_plus_one :: "n_plus_one_world \<Rightarrow> error + int" where
  "main_n_plus_one w =
     (case nw_rails_root w of
        None \<Rightarrow> Inl (SystemExit 1)
      | Some rails_root \<Rightarrow>
          (let controllers_path = rails_root @ ustr ''/app/controllers'';
               controller_issues =
                 scan_directory (nw_rglob w controllers_path ''*.rb'') analyze_controller_action;
               views_path = rails_root @ ustr ''/app/views'';
               view_issues =
                 scan_directory (nw_rglob w views_path ''*.erb'') analyze_view_file
                 @ scan_directory (nw_rglob w views_path ''*.haml'') analyze_view_file;
               all_issues = controller_issues @ view_issues
           in case group_by ''severity'' [(Str (ustr ''warning''), []), (Str (ustr ''info''), [])] all_issues of
                Inl e \<Rightarrow> Inl e
              | Inr by_severity \<Rightarrow>
                  (case dict_get by_severity (Str (ustr ''warning'')) of
                     Inl e \<Rightarrow> Inl e
                   | Inr warnings \<Rightarrow>
                       (case dict_get by_severity (Str (ustr ''info'')) of
                          Inl e \<Rightarrow> Inl e
                        | Inr infos \<Rightarrow>
                            (case read_keys [''file'', ''line'', ''message''] (warnings @ infos) of
                               Inl e \<Rightarrow> Inl e
                             | Inr _ \<Rightarrow> Inr (if warnings = [] then 0 else 1))))))"

section \<open>analyze\_config.py\<close>

text \<open>
  What \<^verbatim>\<open>yaml.safe_load\<close> returns: null, booleans, integers, strings, sequences and
  mappings. The analyzers look up string keys only, so a mapping is modelled with its
  string keys. A string of the configuration is its UTF-8 bytes: the analyzers compare
  strings, test them for emptiness and for a substring, which agree on the bytes and on
  the code points.
\<close>

datatype yaml = YNull | YBool bool | YInt int | YStr string | YList "yaml list"
  | YDict "(string \<times> yaml) list"

text \<open>\<^verbatim>\<open>d.get(k)\<close> and \<^verbatim>\<open>d.get(k, default)\<close>.\<close>

definition yget :: "(string, yaml) dict \<Rightarrow> string \<Rightarrow> yaml \<Rightarrow> yaml" where
  "yget d k dflt = (case map_of d k of None \<Rightarrow> dflt | Some v \<Rightarrow> v)"

text \<open>
  \<^verbatim>\<open>k in v\<close> for a string \<open>k\<close>: a key of a mapping, an element of a sequence, a substring
  of a string, and \<^verbatim>\<open>TypeError\<close> on a value that is not a container.
\<close>

fun contains :: "yaml \<Rightarrow> string \<Rightarrow> error + bool" where
  "contains (YDict d) k = Inr (dict_in k d)"
| "contains (YList xs) k = Inr (YStr k \<in> set xs)"
| "contains (YStr s) k = Inr (sublist k s)"
| "contains v k = Inl TypeError"

text \<open>\<^verbatim>\<open>v[k]\<close> for a string \<open>k\<close>.\<close>

fun subscript :: "yaml \<Rightarrow> string \<Rightarrow> error + yaml" where
  "subscript (YDict d) k = dict_get d k"
| "subscript v k = Inl TypeError"

fun truthy :: "yaml \<Rightarrow> bool" where
  "truthy YNull = False"
| "truthy (YBool b) = b"
| "truthy (YInt n) = (n \<noteq> 0)"
| "truthy (YStr s) = (s \<noteq> [])"
| "truthy (YList xs) = (xs \<noteq> [])"
| "truthy (YDict d) = (d \<noteq> [])"

definition config_issue :: "string \<Rightarrow> string \<Rightarrow> string \<Rightarrow> string \<Rightarrow> string \<Rightarrow> finding" where
  "config_issue env_name setting severity message recommendation =
     [(''environment'', Str (ustr env_name)),
      (''setting'', Str (ustr setting)),
      (''severity'', Str (ustr severity)),
      (''message'', Str (ustr message)),
      (''recommendation'', Str (ustr recommendation))]"

text \<open>
  \<^verbatim>\<open>isinstance(pool_size, int)\<close> holds of a boolean too, which compares as 0 or 1 and
  prints as \<^verbatim>\<open>False\<close> or \<^verbatim>\<open>True\<close>.
\<close>

definition pool_issues :: "string \<Rightarrow> int \<Rightarrow> string \<Rightarrow> finding list" where
  "pool_issues env_name pool_size shown =
     (if pool_size < 5
      then [config_issue env_name ''pool'' ''warning''
              (''Connection pool size ('' @ shown @ '') is quite small'')
              ''Consider increasing pool size to match your web server threads/workers'']
      else if pool_size > 20
      then [config_issue env_name ''pool'' ''info''
              (''Connection pool size ('' @ shown @ '') is quite large'')
              ''Verify this matches your actual concurrency needs. Too many connections can strain PostgreSQL'']
      else [])"

definition analyze_connection_pool :: "(string, yaml) dict \<Rightarrow> string \<Rightarrow> finding list" where
  "analyze_connection_pool env_config env_name =
     (case yget env_config ''pool'' YNull of
        YNull \<Rightarrow>
          [config_issue env_name ''pool'' ''warning''
             ''Connection pool size not explicitly set (defaults to 5)''
             ''Set pool size based on your application threads/workers. For Puma with 5 threads: pool: 5'']
      | YInt n \<Rightarrow> pool_issues env_name n (str_int n)
      | YBool b \<Rightarrow> pool_issues env_name (if b then 1 else 0) (if b then ''True'' else ''False'')
      | _ \<Rightarrow> [])"

definition analyze_timeouts :: "(string, yaml) dict \<Rightarrow> string \<Rightarrow> error + finding list" where
  "analyze_timeouts env_config env_name =
     (case (if \<not> dict_in ''variables'' env_config then Inr True
            else (case contains (yget env_config ''variables'' (YDict [])) ''statement_timeout'' of
                    Inl e \<Rightarrow> Inl e
                  | Inr b \<Rightarrow> Inr (\<not> b))) of
        Inl e \<Rightarrow> Inl e
      | Inr no_statement_timeout \<Rightarrow>
          Inr ((if no_statement_timeout
                then [config_issue env_name ''statement_timeout'' ''warning''
                        ''statement_timeout not configured''
                        (''Add to database.yml:'' @ [CHR 0x0A] @ ''  variables:'' @ [CHR 0x0A]
                         @ ''    statement_timeout: 30000  # 30 seconds in milliseconds'')]
                else [])
               @ (if \<not> dict_in ''connect_timeout'' env_config
                  then [config_issue env_name ''connect_timeout'' ''info''
                          ''connect_timeout not configured''
                          ''Add connect_timeout: 5 to prevent hanging on database connection issues'']
                  else [])
               @ (if \<not> dict_in ''checkout_timeout'' env_config
                  then [config_issue env_name ''checkout_timeout'' ''info''
                          ''checkout_timeout not configured (defaults to 5 seconds)''
                          ''Explicitly set checkout_timeout: 5 for clarity'']
                  else [])))"

definition analyze_prepared_statements :: "(string, yaml) dict \<Rightarrow> string \<Rightarrow> finding list" where
  "analyze_prepared_statements env_config env_name =
     (let prepared_statements = yget env_config ''prepared_statements'' YNull
      in if prepared_statements = YBool False
         then [config_issue env_name ''prepared_statements'' ''info''
                 ''Prepared statements are disabled''
                 ''Prepared statements improve performance. Only disable if using PgBouncer in transaction mode'']
         else if prepared_statements = YNull \<and> env_name = ''production''
         then [config_issue env_name ''prepared_statements'' ''info''
                 ''Prepared statements setting not explicit''
                 ''Add prepared_statements: true for better query performance (enabled by default)'']
         else [])"

definition analyze_reaping_frequency :: "(string, yaml) dict \<Rightarrow> string \<Rightarrow> finding list" where
  "analyze_reaping_frequency env_config env_name =
     (if \<not> dict_in ''reaping_frequency'' env_config \<and> env_name = ''production''
      then [config_issue env_name ''reaping_frequency'' ''info''
              ''reaping_frequency not configured''
              ''Consider adding reaping_frequency: 60 to clean up stale connections (seconds)'']
      else [])"

definition check_ssl_configuration :: "(string, yaml) dict \<Rightarrow> string \<Rightarrow> finding list" where
  "check_ssl_configuration env_config env_name =
     (if env_name = ''production''
      then (let sslmode = yget env_config ''sslmode'' YNull
            in if \<not> truthy sslmode \<or> sslmode = YStr ''disable''
               then [config_issue env_name ''sslmode'' ''warning''
                       ''SSL/TLS not enforced for production database connections''
                       ''Add sslmode: require or sslmode: verify-full for secure connections'']
               else [])
      else [])"

definition suggest_performance_extensions :: "string \<Rightarrow> finding list" where
  "suggest_performance_extensions env_name =
     [config_issue env_name ''extensions'' ''info''
        ''Consider enabling pg_stat_statements extension''
        (''Enable in PostgreSQL config:'' @ [CHR 0x0A]
         @ ''  shared_preload_libraries = '' @ [CHR 0x27] @ ''pg_stat_statements''
         @ [CHR 0x27] @ [CHR 0x0A]
         @ ''Then run: CREATE EXTENSION IF NOT EXISTS pg_stat_statements;'')]"

text \<open>The five analyzers of one environment, in the order of \<^verbatim>\<open>main\<close>.\<close>

definition analyze_environment :: "(string, yaml) dict \<Rightarrow> string \<Rightarrow> error + finding list" where
  "analyze_environment env_config env_name =
     (case analyze_timeouts env_config env_name of
        Inl e \<Rightarrow> Inl e
      | Inr timeouts \<Rightarrow>
          Inr (analyze_connection_pool env_config env_name
               @ timeouts
               @ analyze_prepared_statements env_config env_name
               @ analyze_reaping_frequency env_config env_name
               @ check_ssl_configuration env_config env_name))"

text \<open>The loop of \<^verbatim>\<open>main\<close> over the environment names.\<close>

fun analyze_environments :: "yaml \<Rightarrow> string list \<Rightarrow> error + finding list" where
  "analyze_environments config [] = Inr []"
| "analyze_environments config (env_name # envs) =
     (case contains config env_name of
        Inl e \<Rightarrow> Inl e
      | Inr False \<Rightarrow> analyze_environments config envs
      | Inr True \<Rightarrow>
          (case subscript config env_name of
             Inl e \<Rightarrow> Inl e
           | Inr (YDict env_config) \<Rightarrow>
               (case analyze_environment env_config env_name of
                  Inl e \<Rightarrow> Inl e
                | Inr issues \<Rightarrow>
                    (case analyze_environments config envs of
                       Inl e \<Rightarrow> Inl e
                     | Inr later \<Rightarrow> Inr (issues @ later)))
           | Inr _ \<Rightarrow> analyze_environments config envs))"

text \<open>\<^verbatim>\<open>all_issues\<close> of \<^verbatim>\<open>main\<close>, once the extension suggestion has been added.\<close>

definition config_issues :: "yaml \<Rightarrow> error + finding list" where
  "config_issues config =
     (case analyze_environments config [''development'', ''test'', ''production''] of
        Inl e \<Rightarrow> Inl e
      | Inr all_issues \<Rightarrow> Inr (all_issues @ suggest_performance_extensions ''all''))"

text \<open>
  \<open>cw_config\<close> is what \<^verbatim>\<open>load_database_config\<close> gives for the file: \<open>None\<close> when it
  raises, which \<^verbatim>\<open>main\<close> catches and reports.
\<close>

record config_world =
  cw_rails_root :: "str option"
  cw_config_exists :: bool
  cw_config :: "yaml option"

definition main_config :: "config_world \<Rightarrow> error + int" where
  "main_config w =
     (case cw_rails_root w of
        None \<Rightarrow> Inl (SystemExit 1)
      | Some rails_root \<Rightarrow>
          (if \<not> cw_config_exists w then Inl (SystemExit 1)
           else (case cw_config w of
                   None \<Rightarrow> Inl (SystemExit 1)
                 | Some config \<Rightarrow>
                     (case config_issues config of
                        Inl e \<Rightarrow> Inl e
                      | Inr all_issues \<Rightarrow>
                          (case group_by ''severity''
                                  [(Str (ustr ''warning''), []), (Str (ustr ''info''), [])] all_issues of
                             Inl e \<Rightarrow> Inl e
                           | Inr by_severity \<Rightarrow>
                               (case read_keys [''message'', ''recommendation''] all_issues of
                                  Inl e \<Rightarrow> Inl e
                                | Inr _ \<Rightarrow> Inr 0))))))"

section \<open>Closed forms and example inputs\<close>

text \<open>
  What the second loop of \<^verbatim>\<open>parse_schema\<close> leaves when the names of the tables are
  distinct: each table with the columns of the index statements that name it appended
  to its indexes, in the order of the statements.
\<close>

definition merge_indexes :: "str list list \<Rightarrow> tables \<Rightarrow> tables" where
  "merge_indexes ms tables = map (\<lambda>(n, i). (n, i\<lparr>indexes := indexes i
       @ map (\<lambda>m. group m 2) (filter (\<lambda>m. group m 1 = n) ms)\<rparr>)) tables"

text \<open>
  The character before the current position once the matcher has consumed \<open>w\<close>.
\<close>

definition step_prev :: "uchar option \<Rightarrow> str \<Rightarrow> uchar option" where
  "step_prev prev w = (if w = [] then prev else Some (last w))"

text \<open>A block that declares \<^verbatim>\<open>user_id\<close> twice, and no index statement.\<close>

definition schema_twice :: str where
  "schema_twice = ustr ''create_table '' @ dq @ ustr ''posts'' @ dq @ ustr '' do |t| t.integer '' @ dq
     @ ustr ''user_id'' @ dq @ ustr '' t.bigint '' @ dq @ ustr ''user_id'' @ dq @ ustr '' end''"

text \<open>An index on \<^verbatim>\<open>title\<close> and \<^verbatim>\<open>user_id\<close>, in that order, and in the other order.\<close>

definition schema_second :: str where
  "schema_second = ustr ''create_table '' @ dq @ ustr ''posts'' @ dq @ ustr '' do |t| t.integer '' @ dq
     @ ustr ''user_id'' @ dq @ ustr '' end add_index '' @ dq @ ustr ''posts'' @ dq @ ustr '', ['' @ dq @ ustr ''title''
     @ dq @ ustr '', '' @ dq @ ustr ''user_id'' @ dq @ ustr '']''"

definition schema_first :: str where
  "schema_first = ustr ''create_table '' @ dq @ ustr ''posts'' @ dq @ ustr '' do |t| t.integer '' @ dq
     @ ustr ''user_id'' @ dq @ ustr '' end add_index '' @ dq @ ustr ''posts'' @ dq @ ustr '', ['' @ dq @ ustr ''user_id''
     @ dq @ ustr '', '' @ dq @ ustr ''title'' @ dq @ ustr '']''"

text \<open>Two tables, and an index statement on a table that the file does not define.\<close>

definition schema_two :: str where
  "schema_two = ustr ''create_table '' @ dq @ ustr ''a'' @ dq @ ustr '' do |t| t.string '' @ dq @ ustr ''title''
     @ dq @ ustr '' t.integer '' @ dq @ ustr ''user_id'' @ dq @ ustr '' end create_table '' @ dq @ ustr ''b'' @ dq
     @ ustr '' do |t| end add_index '' @ dq @ ustr ''c'' @ dq @ ustr '', '' @ dq @ ustr ''user_id'' @ dq"

section \<open>Literals\<close>

lemma ch_eq [simp]: "ch c = ch d \<longleftrightarrow> c = d"
  by (auto simp: ch_def)

lemma ustr_eq [simp]: "ustr a = ustr b \<longleftrightarrow> a = b"
  unfolding ustr_def by (rule inj_map_eq_map) (simp add: inj_on_def)

section \<open>Dictionaries\<close>

lemma dict_set_keys:
  "map fst (dict_set d k v) = (if k \<in> fst ` set d then map fst d else map fst d @ [k])"
proof (induction d)
  case Nil
  then show ?case by simp
next
  case (Cons a d)
  obtain k' v' where a: "a = (k', v')" by (cases a)
  show ?case
  proof (cases "k' = k")
    case True
    then show ?thesis using a by simp
  next
    case False
    then show ?thesis using a Cons by simp
  qed
qed


lemma map_of_dict_set: "map_of (dict_set d k v) = (map_of d)(k \<mapsto> v)"
  by (induction d) (auto simp: fun_eq_iff)



section \<open>The schema model that parse\_schema builds\<close>








lemma foldl_add_table_keys:
  "map fst (foldl add_table d bs)
   = foldl (\<lambda>acc k. if k \<in> set acc then acc else acc @ [k]) (map fst d)
       (map (\<lambda>b. group b 1) bs)"
  by (induction bs arbitrary: d) (auto simp: add_table_def Let_def dict_set_keys image_iff)

lemma first_seen:
  "foldl (\<lambda>acc k. if k \<in> set acc then acc else acc @ [k]) [] ks = rev (remdups (rev ks))"
  by (induction ks rule: rev_induct) auto

lemma build_tables_keys:
  "map fst (build_tables content)
   = rev (remdups (rev (map (\<lambda>b. group b 1) (finditer table_pattern content))))"
  by (simp add: build_tables_def foldl_add_table_keys first_seen)

lemma foldl_add_table_lookup:
  "map_of (foldl add_table d bs) n
   = (case filter (\<lambda>b. group b 1 = n) bs of
        [] \<Rightarrow> map_of d n
      | _ \<Rightarrow> Some (table_entry (group (last (filter (\<lambda>b. group b 1 = n) bs)) 2)))"
proof (induction bs rule: rev_induct)
  case Nil
  then show ?case by simp
next
  case (snoc b bs)
  then show ?case
    by (auto simp: add_table_def Let_def map_of_dict_set split: list.splits)
qed

lemma build_tables_lookup:
  assumes "b \<in> set (finditer table_pattern content)"
  shows "map_of (build_tables content) (group b 1)
         = Some (table_entry (group (last (filter (\<lambda>b'. group b' 1 = group b 1)
                                             (finditer table_pattern content))) 2))"
proof -
  from assms have "filter (\<lambda>b'. group b' 1 = group b 1) (finditer table_pattern content) \<noteq> []"
    by (auto simp: filter_empty_conv)
  then show ?thesis
    by (simp add: build_tables_def foldl_add_table_lookup split: list.splits)
qed

lemma merge_indexes_keys: "map fst (merge_indexes ms tables) = map fst tables"
  by (induction tables) (auto simp: merge_indexes_def)

lemma merge_indexes_lookup:
  "map_of (merge_indexes ms tables) n
   = map_option (\<lambda>i. i\<lparr>indexes := indexes i
       @ map (\<lambda>m. group m 2) (filter (\<lambda>m. group m 1 = n) ms)\<rparr>) (map_of tables n)"
  by (induction tables) (auto simp: merge_indexes_def)

lemma merge_indexes_present_only:
  "merge_indexes (filter (\<lambda>s. group s 1 \<in> fst ` set tables) ms) tables = merge_indexes ms tables"
proof -
  have f: "filter (\<lambda>m. group m 1 = n) (filter (\<lambda>s. group s 1 \<in> fst ` set tables) ms)
        = filter (\<lambda>m. group m 1 = n) ms" if "n \<in> fst ` set tables" for n
    using that by (induction ms) auto
  show ?thesis
    unfolding merge_indexes_def
  proof (rule map_cong [OF refl])
    fix x assume x: "x \<in> set tables"
    then have "fst x \<in> fst ` set tables" by (rule imageI)
    from f [OF this] show "(case x of (n, i) \<Rightarrow> (n, i\<lparr>indexes := indexes i
         @ map (\<lambda>m. group m 2) (filter (\<lambda>m. group m 1 = n)
             (filter (\<lambda>s. group s 1 \<in> fst ` set tables) ms))\<rparr>))
      = (case x of (n, i) \<Rightarrow> (n, i\<lparr>indexes := indexes i
         @ map (\<lambda>m. group m 2) (filter (\<lambda>m. group m 1 = n) ms)\<rparr>))"
      by (cases x) simp
  qed
qed

section \<open>The missing-index analyzer\<close>

lemma missing_index_issue_fields:
  "map_of (missing_index_issue t c) ''table'' = Some (Str t)"
  "map_of (missing_index_issue t c) ''column'' = Some (Str c)"
  "map_of (missing_index_issue t c) ''type'' = Some (Str (ustr ''missing_foreign_key_index''))"
  "map_of (missing_index_issue t c) ''severity'' = Some (Str (ustr ''warning''))"
  "map_of (missing_index_issue t c) ''suggestion'' = Some (Str (ustr ''add_index :'' @ t @ ustr '', :'' @ c))"
  by (simp_all add: missing_index_issue_def)

lemma table_findings:
  "filter (\<lambda>f. map_of f ''table'' = Some (Str t) \<and> map_of f ''column'' = Some (Str c))
     (concat (map (\<lambda>fk. if fk \<notin> set ixs then [missing_index_issue t' fk] else []) fks))
   = (if t' = t \<and> c \<notin> set ixs then replicate (count_list fks c) (missing_index_issue t c)
      else [])"
  by (induction fks) (auto simp: missing_index_issue_fields)

lemma analyze_missing_indexes_Cons:
  "analyze_missing_indexes ((t', i') # tables)
   = concat (map (\<lambda>fk. if fk \<notin> set (indexes i') then [missing_index_issue t' fk] else [])
               (foreign_keys i'))
     @ analyze_missing_indexes tables"
  by (simp add: analyze_missing_indexes_def)

lemma other_tables:
  "t \<notin> fst ` set tables \<Longrightarrow>
   filter (\<lambda>f. map_of f ''table'' = Some (Str t) \<and> map_of f ''column'' = Some (Str c))
     (analyze_missing_indexes tables) = []"
proof (induction tables)
  case Nil
  then show ?case by (simp add: analyze_missing_indexes_def)
next
  case (Cons a tables)
  obtain t' i' where a: "a = (t', i')" by (cases a)
  with Cons show ?case
    by (auto simp: analyze_missing_indexes_Cons table_findings)
qed

lemma findings_of_table:
  assumes "distinct (map fst tables)" and "(t, info) \<in> set tables"
  shows "filter (\<lambda>f. map_of f ''table'' = Some (Str t) \<and> map_of f ''column'' = Some (Str c))
           (analyze_missing_indexes tables)
         = (if c \<in> set (indexes info) then []
            else replicate (count_list (foreign_keys info) c) (missing_index_issue t c))"
  using assms
proof (induction tables)
  case Nil
  then show ?case by simp
next
  case (Cons a tables)
  obtain t' i' where a: "a = (t', i')" by (cases a)
  show ?case
  proof (cases "t' = t")
    case True
    with Cons.prems a have "i' = info" and "t \<notin> fst ` set tables"
      by (auto simp: image_iff)
    then show ?thesis
      using True a by (simp add: analyze_missing_indexes_Cons table_findings other_tables)
  next
    case False
    with Cons.prems a have "(t, info) \<in> set tables" "distinct (map fst tables)" by auto
    with Cons.IH have "filter (\<lambda>f. map_of f ''table'' = Some (Str t)
           \<and> map_of f ''column'' = Some (Str c)) (analyze_missing_indexes tables)
         = (if c \<in> set (indexes info) then []
            else replicate (count_list (foreign_keys info) c) (missing_index_issue t c))"
      by simp
    then show ?thesis
      using False a by (simp add: analyze_missing_indexes_Cons table_findings)
  qed
qed

lemma parse_schema_twice:
  "parse_schema schema_twice = Inr [(ustr ''posts'', \<lparr>columns = [ustr ''user_id'', ustr ''user_id''],
     foreign_keys = [ustr ''user_id'', ustr ''user_id''], indexes = []\<rparr>)]"
  by code_simp

lemma parse_schema_second:
  "parse_schema schema_second = Inr [(ustr ''posts'', \<lparr>columns = [ustr ''user_id''],
     foreign_keys = [ustr ''user_id''], indexes = [ustr ''title'']\<rparr>)]"
  by code_simp

lemma parse_schema_first:
  "parse_schema schema_first = Inr [(ustr ''posts'', \<lparr>columns = [ustr ''user_id''],
     foreign_keys = [ustr ''user_id''], indexes = [ustr ''user_id'']\<rparr>)]"
  by code_simp

lemma index_matches_first: "finditer index_pattern schema_first = [[ustr ''posts'', ustr ''user_id'']]"
  by code_simp

lemma parse_schema_two:
  "parse_schema schema_two = Inr [(ustr ''a'', \<lparr>columns = [ustr ''title'', ustr ''user_id''],
     foreign_keys = [ustr ''user_id''], indexes = []\<rparr>),
    (ustr ''b'', \<lparr>columns = [], foreign_keys = [], indexes = []\<rparr>)]"
  by code_simp

lemma table_matches_two:
  "map (\<lambda>b. group b 1) (finditer table_pattern schema_two) = [ustr ''a'', ustr ''b'']"
  by code_simp

text \<open>
  C1 (as amended). For a table of the schema model and a column \<open>c\<close>, the findings of the
  missing-index analyzer that name the table and the column are: none when \<open>c\<close> is among
  the indexed columns of the table, and otherwise one finding for each occurrence of \<open>c\<close>
  in the list of foreign-key columns of the table (exactly one when the column is listed
  once). Each has the type \<^verbatim>\<open>missing_foreign_key_index\<close>, the severity \<^verbatim>\<open>warning\<close>
  and the suggestion \<^verbatim>\<open>add_index :table, :column\<close>, which holds both names verbatim.
\<close>

theorem missing_index_findings:
  assumes "distinct (map fst tables)" and "(t, info) \<in> set tables"
  shows "filter (\<lambda>f. map_of f ''table'' = Some (Str t) \<and> map_of f ''column'' = Some (Str c))
           (analyze_missing_indexes tables)
         = (if c \<in> set (indexes info) then []
            else replicate (count_list (foreign_keys info) c) (missing_index_issue t c))
       \<and> map_of (missing_index_issue t c) ''type'' = Some (Str (ustr ''missing_foreign_key_index''))
       \<and> map_of (missing_index_issue t c) ''severity'' = Some (Str (ustr ''warning''))
       \<and> map_of (missing_index_issue t c) ''suggestion''
           = Some (Str (ustr ''add_index :'' @ t @ ustr '', :'' @ c))"
  using findings_of_table [OF assms] by (simp add: missing_index_issue_fields)

theorem missing_index_findings_witness:
  "distinct (map fst [(ustr ''posts'', \<lparr>columns = [ustr ''user_id''], foreign_keys = [ustr ''user_id''],
      indexes = []\<rparr>)])
   \<and> filter (\<lambda>f. map_of f ''table'' = Some (Str (ustr ''posts''))
                \<and> map_of f ''column'' = Some (Str (ustr ''user_id'')))
        (analyze_missing_indexes [(ustr ''posts'', \<lparr>columns = [ustr ''user_id''],
           foreign_keys = [ustr ''user_id''], indexes = []\<rparr>)])
      = [missing_index_issue (ustr ''posts'') (ustr ''user_id'')]"
  using missing_index_findings [of "[(ustr ''posts'', \<lparr>columns = [ustr ''user_id''],
      foreign_keys = [ustr ''user_id''], indexes = []\<rparr>)]" "ustr ''posts''"
      "\<lparr>columns = [ustr ''user_id''], foreign_keys = [ustr ''user_id''], indexes = []\<rparr>" "ustr ''user_id''"]
  by simp

text \<open>
  C1 as stated fails where a block declares the column twice: the table \<^verbatim>\<open>posts\<close> of
  \<open>schema_twice\<close> has \<^verbatim>\<open>user_id\<close> twice among its foreign keys and no index, and the
  analyzer emits two findings for the pair, not one.
\<close>

theorem missing_index_twice_counterexample:
  "parse_schema schema_twice = Inr [(ustr ''posts'', \<lparr>columns = [ustr ''user_id'', ustr ''user_id''],
     foreign_keys = [ustr ''user_id'', ustr ''user_id''], indexes = []\<rparr>)]
   \<and> analyze_missing_indexes [(ustr ''posts'', \<lparr>columns = [ustr ''user_id'', ustr ''user_id''],
     foreign_keys = [ustr ''user_id'', ustr ''user_id''], indexes = []\<rparr>)]
     = [missing_index_issue (ustr ''posts'') (ustr ''user_id''), missing_index_issue (ustr ''posts'') (ustr ''user_id'')]"
  by (simp add: parse_schema_twice analyze_missing_indexes_def)


end
